theory Spec2Isabelle
  imports Complex_Main
begin

section \<open>Python values, exceptions and the browser session\<close>

text \<open>
  The script \<^verbatim>\<open>rainyun.py\<close> drives a browser through Selenium. The model makes the
  browser an explicit environment: every call whose result the script branches on
  (an explicit wait, an element lookup, a script execution, the OCR model) takes its
  result from the environment, which may let it return or raise. The script's own
  effects are kept in a session value that is passed along: whether the driver exists,
  the browsing context the driver is switched to, and the list of effects performed so
  far, in order.

  A Python \<open>str\<close> is a list of code points; Python's \<open>float\<close> is modelled by exact
  rationals (type \<open>rat\<close>), so the rounding of each floating-point operation to the
  nearest double is outside the model.
\<close>

type_synonym pystr = "nat list"

text \<open>
  The exceptions below are all subclasses of Python's \<open>Exception\<close>, so a clause
  \<open>except Exception\<close> catches each of them. \<open>PlainException\<close> is what the script
  itself raises with \<open>raise Exception(...)\<close>. \<open>sys.exit(n)\<close> raises
  \<open>SystemExit\<close>, which \<open>except Exception\<close> does not catch: it is the separate
  outcome \<open>Exit n\<close>.
\<close>

datatype exn =
    TimeoutException
  | NoSuchElementException
  | WebDriverException
  | ValueError
  | TypeError
  | PlainException

datatype 'a outcome = Return 'a | Raise exn | Exit int

datatype frame_id = Tcaptcha_iframe | Tcaptcha_iframe_dy

datatype browsing_context = MainDocument | InFrame frame_id

datatype duration = Seconds rat | Uniform rat rat | RandInt int int

datatype page = LoginPage | EarnPage

text \<open>
  The four locator strategies of lines 427-430, in the order of the list: the absolute
  XPath of the link, the XPath by href and link text, the CSS selector by href, and
  the XPath by class name.
\<close>

datatype locator = AbsoluteXPath | HrefTextXPath | HrefCss | ClassXPath

text \<open>
  The three handlers of the balance scrape (lines 502-513) send the same title with
  three different bodies.
\<close>

datatype unknown_cause = ElementTimeout | ElementMissing | ScrapeFailed

text \<open>
  The notifications, by the title passed to \<open>send\<close>: configuration error (line 258),
  sign-in failed (lines 383 and 519), login captcha failed (line 403), earn captcha
  failed (line 465), sign-in partly failed (line 481), sign-in succeeded (line 500, with
  the points and the text of the currency equivalent), result unknown (lines 505, 509,
  513) and script exception (line 525).
\<close>

datatype notification =
    ConfigError
  | SignInFailed
  | LoginCaptchaFailed
  | EarnCaptchaFailed
  | PartialFailure
  | SignInSuccess nat string
  | ResultUnknown unknown_cause
  | ScriptException

datatype event =
    Sleep duration
  | Get page
  | Refresh
  | LoginTry
  | Send notification
  | ClickAndHold
  | MoveByOffset int int
  | Release
  | ClickCaptchaRefresh
  | WaitClickable locator
  | ClickEarn
  | ScrapeBalance
  | Quit

record session =
  driver :: bool
  ctx :: browsing_context
  trace :: "event list"

definition initial_session :: session where
  "initial_session = \<lparr>driver = False, ctx = MainDocument, trace = []\<rparr>"

definition emit :: "event list \<Rightarrow> session \<Rightarrow> session" where
  "emit evs s = s\<lparr>trace := trace s @ evs\<rparr>"

text \<open>\<open>driver.switch_to.default_content()\<close>.\<close>

definition switch_to_default_content :: "session \<Rightarrow> session" where
  "switch_to_default_content s = s\<lparr>ctx := MainDocument\<rparr>"

text \<open>A successful \<open>EC.frame_to_be_available_and_switch_to_it\<close>.\<close>

definition switch_to_frame :: "frame_id \<Rightarrow> session \<Rightarrow> session" where
  "switch_to_frame f s = s\<lparr>ctx := InFrame f\<rparr>"

text \<open>
  Calls that the script makes outside the reach of the branches modelled here are
  taken to return normally: \<open>time.sleep\<close>, the logger, \<open>send\<close> (the notifier must
  never raise), \<open>driver.refresh\<close>, \<open>driver.implicitly_wait\<close> and
  \<open>driver.switch_to.default_content\<close>.
\<close>

section \<open>Slide-captcha geometry (process_captcha, lines 176-214)\<close>

definition original_bg_width :: rat where
  "original_bg_width = 340"

text \<open>
  Lines 176-192. \<open>target_x\<close> is the offset returned by the OCR model (line 161), taken
  to be a number as the code treats it; \<open>bg_rendered_width\<close> is
  \<open>bg_img.size['width']\<close> (line 176).
\<close>

definition move_distance :: "rat \<Rightarrow> rat \<Rightarrow> rat" where
  "move_distance target_x bg_rendered_width =
     (let md = (if original_bg_width > 0
                then (let scale = bg_rendered_width / original_bg_width
                      in target_x * scale)
                else target_x);
          md = md - 30
      in if md < 0 then 0 else md)"

text \<open>Python's \<open>int(x)\<close> on a number: truncation towards zero.\<close>

definition int_of_number :: "rat \<Rightarrow> int" where
  "int_of_number x = (if x < 0 then \<lceil>x\<rceil> else \<lfloor>x\<rfloor>)"

text \<open>
  Python's \<open>range(start, stop, step)\<close> for a positive step, as the list of its
  values. The source calls it with step 10 only.
\<close>

function py_range :: "int \<Rightarrow> int \<Rightarrow> int \<Rightarrow> int list" where
  "py_range start stop step =
     (if 0 < step \<and> start < stop then start # py_range (start + step) stop step else [])"
  by pat_completeness auto
termination
  by (relation "measure (\<lambda>(start, stop, step). nat (stop - start))") auto

declare py_range.simps [simp del]

text \<open>
  Lines 198-214, the gesture: press and hold, half a second, one move by 10 pixels and
  a short random pause for every value of the range, one last move by the remainder
  (only when it is positive), release, three seconds.
\<close>

definition gesture_events :: "rat \<Rightarrow> event list" where
  "gesture_events md =
     [ClickAndHold, Sleep (Seconds (1 / 2))]
     @ concat (map (\<lambda>x_offset. [MoveByOffset 10 0, Sleep (Uniform (1 / 100) (5 / 100))])
                   (py_range 0 (int_of_number md) 10))
     @ (let remaining_distance = int_of_number md - (int_of_number md div 10) * 10
        in if remaining_distance > 0
           then [MoveByOffset remaining_distance 0, Sleep (Uniform (1 / 10) (3 / 10))]
           else [])
     @ [Release, Sleep (Seconds 3)]"

text \<open>The horizontal offset an effect applies to the pointer.\<close>

fun horizontal_offset :: "event \<Rightarrow> int" where
  "horizontal_offset (MoveByOffset x y) = x"
| "horizontal_offset _ = 0"

text \<open>The total horizontal offset applied between press and release.\<close>

definition drag_total :: "rat \<Rightarrow> int" where
  "drag_total md = sum_list (map horizontal_offset (gesture_events md))"

section \<open>The captcha stage (process_captcha, lines 115-243)\<close>

text \<open>
  What the browser does in one invocation of \<open>process_captcha\<close>:
  \<^item> \<open>iframe_wait\<close>: the wait for the captcha iframe (line 123) raises, or switches
    into the frame (\<open>None\<close>);
  \<^item> \<open>challenge\<close>: lines 132-176 raise, or give the OCR offset and the rendered width
    of the background;
  \<^item> \<open>gesture\<close>: \<open>Some (n, e)\<close> when the gesture (lines 198-214) raises \<open>e\<close> after
    \<open>n\<close> of its effects;
  \<^item> \<open>failure_text\<close>: the lookup of line 220 raises, or tells whether an element with
    the failure text was found;
  \<^item> \<open>refresh_lookup\<close>: lines 222-224 (the element's text, the lookup of the refresh
    control) raise, or succeed;
  \<^item> \<open>refresh_click\<close>: the click of line 226 raises, or succeeds.
\<close>

record captcha_round =
  iframe_wait :: "exn option"
  challenge :: "exn + rat \<times> rat"
  gesture :: "(nat \<times> exn) option"
  failure_text :: "exn + bool"
  refresh_lookup :: "exn option"
  refresh_click :: "exn option"

text \<open>
  One pass through the outer \<open>try\<close> block (lines 130-241) ends with a returned value
  or reaches the recursive call of line 229.
\<close>

datatype attempt = Returns bool | Retry

text \<open>
  The handlers an exception meets inside the inner \<open>try\<close> (lines 217-236):
  \<open>NoSuchElementException\<close> is caught at line 234 and the stage returns \<open>True\<close>;
  every other exception reaches \<open>except Exception\<close> (lines 238-241), which switches
  to the main document and returns \<open>False\<close>. The lookup of line 224 returns an
  element or raises, and an element is true, so line 230 is never reached.
\<close>

definition verify_except :: "exn \<Rightarrow> session \<Rightarrow> attempt \<times> session" where
  "verify_except e s =
     (if e = NoSuchElementException then (Returns True, s)
      else (Returns False, switch_to_default_content s))"

definition captcha_attempt :: "captcha_round \<Rightarrow> session \<Rightarrow> attempt \<times> session" where
  "captcha_attempt r s =
     (case challenge r of
        Inl e \<Rightarrow> (Returns False, switch_to_default_content s)
      | Inr (target_x, bg_rendered_width) \<Rightarrow>
          (let md = move_distance target_x bg_rendered_width in
           case gesture r of
             Some (n, e) \<Rightarrow>
               (Returns False, switch_to_default_content (emit (take n (gesture_events md)) s))
           | None \<Rightarrow>
               (let s = emit (gesture_events md) s in
                case failure_text r of
                  Inl e \<Rightarrow> verify_except e s
                | Inr error_message \<Rightarrow>
                    if error_message then
                      (case refresh_lookup r of
                         Some e \<Rightarrow> verify_except e s
                       | None \<Rightarrow>
                           (let s = emit [ClickCaptchaRefresh] s in
                            case refresh_click r of
                              Some e \<Rightarrow> verify_except e s
                            | None \<Rightarrow> (Retry, emit [Sleep (Seconds 2)] s)))
                    else (Returns True, s))))"

text \<open>
  \<open>process_captcha rounds k s\<close>: the invocation that meets round \<open>k\<close> of the
  environment, started in session \<open>s\<close>. The result is \<open>None\<close> when the recursion never
  returns, \<open>Inr b\<close> when the stage returns \<open>b\<close> and \<open>Inl e\<close> when \<open>e\<close> leaves it.
  \<^item> Line 119 switches to the main document.
  \<^item> Lines 122-126: a timeout of the iframe wait returns \<open>False\<close>; this wait is outside
    the outer \<open>try\<close>, so any other exception leaves the function.
  \<^item> Line 229 is inside both \<open>try\<close> statements: of the exceptions leaving the
    recursive call, \<open>NoSuchElementException\<close> is caught by lines 234-236 and every
    other one by lines 238-241.
  \<^item> Line 243, the \<open>finally\<close> clause, runs on every way out of the outer \<open>try\<close>.
\<close>

partial_function (option) process_captcha ::
  "(nat \<Rightarrow> captcha_round) \<Rightarrow> nat \<Rightarrow> session \<Rightarrow> ((exn + bool) \<times> session) option" where
  "process_captcha rounds k s =
     (let s = switch_to_default_content s in
      case iframe_wait (rounds k) of
        Some e \<Rightarrow>
          if e = TimeoutException then Some (Inr False, s) else Some (Inl e, s)
      | None \<Rightarrow>
          (let s = emit [Sleep (Seconds 2)] (switch_to_frame Tcaptcha_iframe s) in
           case captcha_attempt (rounds k) s of
             (Returns b, s) \<Rightarrow> Some (Inr b, switch_to_default_content s)
           | (Retry, s) \<Rightarrow>
               Option.bind (process_captcha rounds (Suc k) s)
                 (\<lambda>(res, s). case res of
                      Inr b \<Rightarrow> Some (Inr b, switch_to_default_content s)
                    | Inl e \<Rightarrow>
                        if e = NoSuchElementException
                        then Some (Inr True, switch_to_default_content s)
                        else Some (Inr False,
                                   switch_to_default_content (switch_to_default_content s)))))"


section \<open>The balance text (lines 492-494)\<close>

text \<open>
  In a pattern over \<open>str\<close>, \<open>\d\<close> matches every character of the Unicode category
  Nd (decimal digit), and \<open>int\<close> reads every such character as its digit. The
  category consists of blocks of ten consecutive code points for the digits 0 to 9;
  \<open>Nd_zeros\<close> lists the code point of the zero of each block (Unicode 14, the
  table of CPython 3.11), the first being the ASCII digits.
\<close>

definition Nd_zeros :: "nat list" where
  "Nd_zeros =
     [48, 1632, 1776, 1984, 2406, 2534, 2662, 2790, 2918, 3046, 3174, 3302, 3430, 3558,
      3664, 3792, 3872, 4160, 4240, 6112, 6160, 6470, 6608, 6784, 6800, 6992, 7088, 7232,
      7248, 42528, 43216, 43264, 43472, 43504, 43600, 44016, 65296, 66720, 68912, 69734,
      69872, 69942, 70096, 70384, 70736, 70864, 71248, 71360, 71472, 71904, 72016, 72784,
      73040, 73120, 92768, 92864, 93008, 120782, 120792, 120802, 120812, 120822, 123200,
      123632, 125264, 130032]"

definition is_decimal :: "nat \<Rightarrow> bool" where
  "is_decimal c = list_ex (\<lambda>z. z \<le> c \<and> c < z + 10) Nd_zeros"

definition digit_of :: "nat \<Rightarrow> nat" where
  "digit_of c = (case find (\<lambda>z. z \<le> c \<and> c < z + 10) Nd_zeros of Some z \<Rightarrow> c - z | None \<Rightarrow> 0)"

text \<open>
  \<open>re.findall(r'\d+', text)\<close>: the matches from left to right, each as long as
  possible, none overlapping. \<open>digit_runs cur text\<close> scans \<open>text\<close> with the match
  in progress in \<open>cur\<close>.
\<close>

fun digit_runs :: "pystr \<Rightarrow> pystr \<Rightarrow> pystr list" where
  "digit_runs cur [] = (if cur = [] then [] else [cur])"
| "digit_runs cur (c # cs) =
     (if is_decimal c then digit_runs (cur @ [c]) cs
      else (if cur = [] then [] else [cur]) @ digit_runs [] cs)"

definition findall_digits :: "pystr \<Rightarrow> pystr list" where
  "findall_digits text = digit_runs [] text"

text \<open>
  \<open>int(s)\<close> for the strings this call site passes: \<open>s\<close> is a concatenation of
  matches of \<open>\d+\<close>, so it holds decimal digits only, and \<open>int\<close> raises
  \<open>ValueError\<close> on it exactly when it is empty. (Signs, spaces and underscores, which
  \<open>int\<close> treats specially, never reach it; the interpreter's limit on the number of
  digits is not modelled.)
\<close>

definition decimal_value :: "pystr \<Rightarrow> nat" where
  "decimal_value s = foldl (\<lambda>acc c. 10 * acc + digit_of c) 0 s"

definition int_of_str :: "pystr \<Rightarrow> exn + nat" where
  "int_of_str s =
     (if s \<noteq> [] \<and> list_all is_decimal s then Inr (decimal_value s) else Inl ValueError)"

text \<open>Line 493: \<open>int(''.join(re.findall(r'\d+', points_raw)))\<close>.\<close>

definition parse_points :: "pystr \<Rightarrow> exn + nat" where
  "parse_points points_raw = int_of_str (concat (findall_digits points_raw))"

text \<open>The decimal numeral of a natural number, as \<open>str\<close> writes it.\<close>

definition digit_char :: "nat \<Rightarrow> char" where
  "digit_char d = ''0123456789'' ! (d mod 10)"

function decimal :: "nat \<Rightarrow> string" where
  "decimal n = (if n < 10 then [digit_char n] else decimal (n div 10) @ [digit_char (n mod 10)])"
  by pat_completeness auto
termination
  by (relation "measure id") auto

declare decimal.simps [simp del]

text \<open>
  The format \<open>.2f\<close> of a number that is not negative: the nearest multiple of one
  hundredth, an exact tie going to the even one, written with two decimals.
\<close>

definition round_half_even :: "rat \<Rightarrow> int" where
  "round_half_even x =
     (let f = \<lfloor>x\<rfloor>; d = x - of_int f
      in if d < 1 / 2 then f else if 1 / 2 < d then f + 1 else if even f then f else f + 1)"

definition format_2f :: "rat \<Rightarrow> string" where
  "format_2f x =
     (let hundredths = nat (round_half_even (x * 100))
      in decimal (hundredths div 100) @ ''.''
         @ [digit_char (hundredths mod 100 div 10), digit_char (hundredths mod 10)])"

text \<open>Line 494: the text of \<open>current_points / 2000\<close> in the format \<open>.2f\<close>.\<close>

definition currency_str :: "nat \<Rightarrow> string" where
  "currency_str current_points = format_2f (of_nat current_points / 2000)"

section \<open>The script (lines 246-535)\<close>

subsection \<open>The environment\<close>

text \<open>
  One pass of the login loop (lines 323-350), as the browser decides it: the page is
  on the dashboard after the submit, or the pass completes with a URL that lacks
  \<open>dashboard\<close>, or some call of the pass raises (a wait that times out raises
  \<open>TimeoutException\<close>).
\<close>

datatype login_outcome = Dashboard | StillLogin | LoginRaises exn

text \<open>
  One pass of the earn loop (lines 416-473):
  \<^item> \<open>page_load\<close>: lines 417-421 raise, or succeed;
  \<^item> \<open>clickable l\<close>: the wait of line 435 for locator \<open>l\<close> returns an element (any
    exception is swallowed by the bare \<open>except\<close> of line 438);
  \<^item> \<open>click_earn\<close>: lines 444-449 raise, or succeed;
  \<^item> \<open>earn_captcha_frame\<close>: the wait of line 454 raises, or switches into the frame;
  \<^item> \<open>earn_captcha\<close>: the rounds of the captcha stage called on line 456.
\<close>

record earn_attempt =
  page_load :: "exn option"
  clickable :: "locator \<Rightarrow> bool"
  click_earn :: "exn option"
  earn_captcha_frame :: "exn option"
  earn_captcha :: "nat \<Rightarrow> captcha_round"

text \<open>
  The whole environment of a run:
  \<^item> \<open>env_user\<close>, \<open>env_pwd\<close>, \<open>env_debug\<close>: the environment variables of lines
    250, 251 and 264;
  \<^item> \<open>ocr_init\<close> (lines 289-290), \<open>selenium_init\<close> (lines 294-295) and
    \<open>open_login\<close> (line 314) raise, or succeed; the loading of the stealth script
    (lines 300-310) catches every exception and is left out;
  \<^item> \<open>login n\<close>: the pass of the login loop made while \<open>retry_count\<close> is \<open>n\<close>;
  \<^item> \<open>login_captcha_frame\<close>: the wait of line 391; \<open>login_captcha\<close>: the rounds of
    the captcha stage called on line 393;
  \<^item> \<open>dashboard_url\<close>: the test of line 409 raises, or tells whether the URL holds
    \<open>dashboard\<close>;
  \<^item> \<open>earn n\<close>: pass \<open>n\<close> of the earn loop;
  \<^item> \<open>balance\<close>: lines 489-492 raise, or give the \<open>textContent\<close> of the balance
    element (\<open>None\<close> when the element has no such attribute).
\<close>

record environment =
  env_user :: "string option"
  env_pwd :: "string option"
  env_debug :: bool
  ocr_init :: "exn option"
  selenium_init :: "exn option"
  open_login :: "exn option"
  login :: "nat \<Rightarrow> login_outcome"
  login_captcha_frame :: "exn option"
  login_captcha :: "nat \<Rightarrow> captcha_round"
  dashboard_url :: "exn + bool"
  earn :: "nat \<Rightarrow> earn_attempt"
  balance :: "exn + pystr option"

subsection \<open>The login loop (lines 317-376)\<close>

definition max_retries :: nat where
  "max_retries = 3"

text \<open>
  The body of the \<open>try\<close> (lines 323-358). It raises with the updated counter, or
  completes with the updated counter and flag. \<open>LoginTry\<close> marks the pass itself
  (the waits for the fields, the filling and the submit).
\<close>

definition login_try ::
  "login_outcome \<Rightarrow> nat \<Rightarrow> bool \<Rightarrow> session
     \<Rightarrow> (exn \<times> nat \<times> session) + (nat \<times> bool \<times> session)" where
  "login_try attempt retry_count login_success s =
     (let s = emit [LoginTry] s in
      case attempt of
        LoginRaises e \<Rightarrow> Inl (e, retry_count, s)
      | Dashboard \<Rightarrow> Inr (retry_count, True, s)
      | StillLogin \<Rightarrow>
          (let retry_count = retry_count + 1 in
           if retry_count < max_retries
           then Inr (retry_count, login_success,
                     emit [Sleep (Seconds (of_nat (retry_count * 2))), Refresh] s)
           else Inl (PlainException, retry_count, s)))"

text \<open>
  The handlers: \<open>except TimeoutException\<close> (lines 360-367) and \<open>except Exception\<close>
  (lines 368-376). An exception raised inside a handler leaves the loop.
\<close>

definition login_except ::
  "exn \<Rightarrow> nat \<Rightarrow> session \<Rightarrow> (exn \<times> session) + (nat \<times> session)" where
  "login_except e retry_count s =
     (if e = TimeoutException then
        (let retry_count = retry_count + 1 in
         if retry_count < max_retries
         then Inr (retry_count, emit [Sleep (Seconds (of_nat (retry_count * 2))), Refresh] s)
         else Inl (PlainException, s))
      else
        (let retry_count = retry_count + 1 in
         if retry_count < max_retries
         then Inr (retry_count, emit [Sleep (Seconds (of_nat (retry_count * 2))), Refresh] s)
         else Inl (PlainException, s)))"

text \<open>One pass of the loop body: the \<open>try\<close> statement of lines 322-376.\<close>

definition login_pass ::
  "login_outcome \<Rightarrow> nat \<Rightarrow> bool \<Rightarrow> session
     \<Rightarrow> (exn \<times> session) + (nat \<times> bool \<times> session)" where
  "login_pass attempt retry_count login_success s =
     (case login_try attempt retry_count login_success s of
        Inr r \<Rightarrow> Inr r
      | Inl (e, retry_count, s) \<Rightarrow>
          (case login_except e retry_count s of
             Inl r \<Rightarrow> Inl r
           | Inr (retry_count, s) \<Rightarrow> Inr (retry_count, login_success, s)))"

text \<open>The \<open>while\<close> loop of line 321. It ends with the value of \<open>login_success\<close>.\<close>

function login_loop ::
  "(nat \<Rightarrow> login_outcome) \<Rightarrow> nat \<Rightarrow> bool \<Rightarrow> session \<Rightarrow> bool outcome \<times> session" where
  "login_loop attempts retry_count login_success s =
     (if retry_count < max_retries \<and> \<not> login_success then
        (case login_pass (attempts retry_count) retry_count login_success s of
           Inl (e, s) \<Rightarrow> (Raise e, s)
         | Inr (retry_count, login_success, s) \<Rightarrow> login_loop attempts retry_count login_success s)
      else (Return login_success, s))"
  by pat_completeness auto
termination
proof (relation "measure (\<lambda>(attempts, retry_count, login_success, s).
                    2 * (max_retries - retry_count) + (if login_success then 0 else 1))")
  show "wf (measure (\<lambda>(attempts, retry_count, login_success, s).
                    2 * (max_retries - retry_count) + (if login_success then 0 else 1)))"
    by simp
next
  fix attempts :: "nat \<Rightarrow> login_outcome" and retry_count login_success s x2 x y xa ya
  assume "retry_count < max_retries \<and> \<not> login_success"
    and "login_pass (attempts retry_count) retry_count login_success s = Inr x2"
    and "(x, y) = x2" and "(xa, ya) = y"
  then show "((attempts, x, xa, ya), attempts, retry_count, login_success, s)
         \<in> measure (\<lambda>(attempts, retry_count, login_success, s).
                    2 * (max_retries - retry_count) + (if login_success then 0 else 1))"
    by (auto simp: login_pass_def login_try_def login_except_def Let_def
             split: login_outcome.splits if_splits sum.splits prod.splits)
qed

declare login_loop.simps [simp del]

text \<open>
  Lines 313-384: the login page is opened, the loop runs, and a loop that ends
  without success is reported and exits with code 1.
\<close>

definition login_stage :: "environment \<Rightarrow> session \<Rightarrow> unit outcome \<times> session" where
  "login_stage env s =
     (let s = emit [Get LoginPage] s in
      case open_login env of
        Some e \<Rightarrow> (Raise e, s)
      | None \<Rightarrow>
          (case login_loop (login env) 0 False s of
             (Return login_success, s) \<Rightarrow>
               if \<not> login_success then (Exit 1, emit [Send SignInFailed] s)
               else (Return (), s)
           | (Raise e, s) \<Rightarrow> (Raise e, s)
           | (Exit n, s) \<Rightarrow> (Exit n, s)))"

subsection \<open>The captcha after the login (lines 389-404)\<close>

text \<open>
  The \<open>try\<close> statement of lines 389-404, by the exception its body ends with:
  \<open>TimeoutException\<close> is taken as "no captcha" (lines 397-399), every other
  exception is reported and the script exits with code 1 (lines 400-404).
\<close>

definition login_captcha_except :: "exn \<Rightarrow> session \<Rightarrow> unit outcome \<times> session" where
  "login_captcha_except e s =
     (if e = TimeoutException then (Return (), switch_to_default_content s)
      else (Exit 1, emit [Send LoginCaptchaFailed] s))"

definition post_login_captcha ::
  "environment \<Rightarrow> session \<Rightarrow> (unit outcome \<times> session) option" where
  "post_login_captcha env s =
     (case login_captcha_frame env of
        Some e \<Rightarrow> Some (login_captcha_except e s)
      | None \<Rightarrow>
          Option.bind (process_captcha (login_captcha env) 0 (switch_to_frame Tcaptcha_iframe_dy s))
            (\<lambda>(res, s). case res of
                 Inl e \<Rightarrow> Some (login_captcha_except e s)
               | Inr captcha_processed \<Rightarrow>
                   if \<not> captcha_processed then Some (login_captcha_except PlainException s)
                   else Some (Return (), switch_to_default_content s)))"

subsection \<open>The earn loop (lines 414-481)\<close>

definition max_earn_retries :: nat where
  "max_earn_retries = 3"

definition strategies :: "locator list" where
  "strategies = [AbsoluteXPath, HrefTextXPath, HrefCss, ClassXPath]"

text \<open>
  Lines 425-440: \<open>earn_button\<close> starts as \<open>None\<close>; each strategy is waited for in
  turn, the first that gives an element ends the loop. The result names the strategy
  whose element \<open>earn_button\<close> holds.
\<close>

fun find_earn_button ::
  "(locator \<Rightarrow> bool) \<Rightarrow> locator list \<Rightarrow> session \<Rightarrow> locator option \<times> session" where
  "find_earn_button found [] s = (None, s)"
| "find_earn_button found (l # ls) s =
     (let s = emit [WaitClickable l] s in
      if found l then (Some l, s) else find_earn_button found ls s)"

text \<open>
  The \<open>try\<close> statement of lines 452-466. A timeout of the wait is taken as "no
  captcha"; every other exception is reported and the run goes on.
\<close>

definition earn_captcha_except :: "exn \<Rightarrow> session \<Rightarrow> session" where
  "earn_captcha_except e s =
     (if e = TimeoutException then switch_to_default_content s
      else emit [Send EarnCaptchaFailed] s)"

definition post_reward_captcha :: "earn_attempt \<Rightarrow> session \<Rightarrow> session option" where
  "post_reward_captcha a s =
     (case earn_captcha_frame a of
        Some e \<Rightarrow> Some (earn_captcha_except e s)
      | None \<Rightarrow>
          Option.bind (process_captcha (earn_captcha a) 0 (switch_to_frame Tcaptcha_iframe_dy s))
            (\<lambda>(res, s). case res of
                 Inl e \<Rightarrow> Some (earn_captcha_except e s)
               | Inr captcha_processed \<Rightarrow>
                   if \<not> captcha_processed then Some (earn_captcha_except PlainException s)
                   else Some (switch_to_default_content s)))"

datatype loop_control = Break | Continue

text \<open>
  The body of the \<open>try\<close> of one pass (lines 417-473): it raises, or ends the pass
  with \<open>break\<close> (line 469) or by falling through (line 473).
\<close>

definition earn_try ::
  "earn_attempt \<Rightarrow> session \<Rightarrow> ((exn \<times> session) + (loop_control \<times> session)) option" where
  "earn_try a s =
     (let s = emit [Get EarnPage] s in
      case page_load a of
        Some e \<Rightarrow> Some (Inl (e, s))
      | None \<Rightarrow>
          (let s = emit [Sleep (Seconds 3)] s;
               (earn_button, s) = find_earn_button (clickable a) strategies s
           in case earn_button of
                None \<Rightarrow> Some (Inr (Continue, emit [Refresh, Sleep (Uniform 3 5)] s))
              | Some l \<Rightarrow>
                  (case click_earn a of
                     Some e \<Rightarrow> Some (Inl (e, s))
                   | None \<Rightarrow>
                       map_option (\<lambda>s. Inr (Break, s))
                         (post_reward_captcha a
                            (emit [Sleep (Uniform (1 / 2) (3 / 2)), ClickEarn] s)))))"

text \<open>One pass: the \<open>try\<close> statement of lines 416-476 with its handler.\<close>

definition earn_pass :: "earn_attempt \<Rightarrow> session \<Rightarrow> (loop_control \<times> session) option" where
  "earn_pass a s =
     map_option
       (\<lambda>r. case r of
            Inl (e, s) \<Rightarrow> (Continue, emit [Sleep (Uniform 3 5)] s)
          | Inr r \<Rightarrow> r)
       (earn_try a s)"

text \<open>
  The \<open>for\<close> loop of line 415 from pass \<open>attempt\<close> on, with its \<open>else\<close> clause
  (lines 477-481), which runs when no pass ended with \<open>break\<close>.
\<close>

function earn_loop :: "(nat \<Rightarrow> earn_attempt) \<Rightarrow> nat \<Rightarrow> session \<Rightarrow> session option" where
  "earn_loop attempts attempt s =
     (if attempt < max_earn_retries then
        (case earn_pass (attempts attempt) s of
           None \<Rightarrow> None
         | Some (Break, s) \<Rightarrow> Some s
         | Some (Continue, s) \<Rightarrow> earn_loop attempts (attempt + 1) s)
      else Some (emit [Send PartialFailure] s))"
  by pat_completeness auto
termination
  by (relation "measure (\<lambda>(attempts, attempt, s). max_earn_retries - attempt)") auto

declare earn_loop.simps [simp del]

subsection \<open>The balance scrape (lines 485-513)\<close>

text \<open>
  \<open>ScrapeBalance\<close> marks the wait for the balance element (line 489). A missing
  \<open>textContent\<close> makes \<open>re.findall\<close> raise \<open>TypeError\<close>. Every exception is caught by
  one of the three handlers, so the scrape always completes.
\<close>

definition balance_except :: "exn \<Rightarrow> session \<Rightarrow> session" where
  "balance_except e s =
     (if e = TimeoutException then emit [Send (ResultUnknown ElementTimeout)] s
      else if e = NoSuchElementException then emit [Send (ResultUnknown ElementMissing)] s
      else emit [Send (ResultUnknown ScrapeFailed)] s)"

definition balance_scrape :: "exn + pystr option \<Rightarrow> session \<Rightarrow> session" where
  "balance_scrape element s =
     (let s = emit [ScrapeBalance] s in
      case element of
        Inl e \<Rightarrow> balance_except e s
      | Inr None \<Rightarrow> balance_except TypeError s
      | Inr (Some points_raw) \<Rightarrow>
          (case parse_points points_raw of
             Inl e \<Rightarrow> balance_except e s
           | Inr current_points \<Rightarrow>
               emit [Send (SignInSuccess current_points (currency_str current_points))] s))"

subsection \<open>After the login (lines 406-519)\<close>

definition after_login :: "environment \<Rightarrow> session \<Rightarrow> (unit outcome \<times> session) option" where
  "after_login env s =
     (let s = emit [Sleep (Seconds 2)] s in
      case dashboard_url env of
        Inl e \<Rightarrow> Some (Raise e, s)
      | Inr on_dashboard \<Rightarrow>
          if on_dashboard then
            map_option (\<lambda>s. (Return (), balance_scrape (balance env) s))
              (earn_loop (earn env) 0 s)
          else Some (Return (), emit [Send SignInFailed] s))"

subsection \<open>The whole run\<close>

text \<open>Lines 283-286: the random delay, unless the debug flag is set.\<close>

definition startup_delay :: "environment \<Rightarrow> session \<Rightarrow> session" where
  "startup_delay env s = (if \<not> env_debug env then emit [Sleep (RandInt 5 600)] s else s)"

text \<open>The body of the outer \<open>try\<close> (lines 283-519).\<close>

definition run :: "environment \<Rightarrow> session \<Rightarrow> (unit outcome \<times> session) option" where
  "run env s =
     (let s = startup_delay env s in
      case ocr_init env of
        Some e \<Rightarrow> Some (Raise e, s)
      | None \<Rightarrow>
          (case selenium_init env of
             Some e \<Rightarrow> Some (Raise e, s)
           | None \<Rightarrow>
               (case login_stage env (s\<lparr>driver := True\<rparr>) of
                  (Return u, s) \<Rightarrow>
                    Option.bind (post_login_captcha env s)
                      (\<lambda>(out, s). case out of
                           Return u \<Rightarrow> after_login env s
                         | Raise e \<Rightarrow> Some (Raise e, s)
                         | Exit n \<Rightarrow> Some (Exit n, s))
                | (Raise e, s) \<Rightarrow> Some (Raise e, s)
                | (Exit n, s) \<Rightarrow> Some (Exit n, s))))"

text \<open>Python's truth value of \<open>os.environ.get(...)\<close>: \<open>None\<close> and the empty string are false.\<close>

definition falsy :: "string option \<Rightarrow> bool" where
  "falsy v = (v = None \<or> v = Some [])"

text \<open>
  What follows the body of the outer \<open>try\<close>, as the exit code of the process and the
  final session.
  \<^item> Lines 521-525: \<open>except Exception\<close> reports the exception; \<open>sys.exit\<close> is not
    caught. After the handler the script falls off its end.
  \<^item> Lines 527-535: the \<open>finally\<close> clause quits the driver if there is one (an
    exception of \<open>driver.quit\<close> is caught on line 533).
  \<^item> A script that reaches its end exits with code 0.
\<close>

definition top_level :: "unit outcome \<Rightarrow> session \<Rightarrow> int \<times> session" where
  "top_level out s =
     (let s = (case out of Raise e \<Rightarrow> emit [Send ScriptException] s | _ \<Rightarrow> s);
          s = (if driver s then emit [Quit] s else s)
      in (case out of Exit n \<Rightarrow> n | _ \<Rightarrow> 0, s))"

text \<open>
  The script from line 250 to its end; \<open>None\<close> when the run never ends. Lines
  254-259: missing credentials are reported and the script exits with code 1, before
  the outer \<open>try\<close>.
\<close>

definition main :: "environment \<Rightarrow> (int \<times> session) option" where
  "main env =
     (if falsy (env_user env) \<or> falsy (env_pwd env)
      then Some (1, emit [Send ConfigError] initial_session)
      else map_option (\<lambda>(out, s). top_level out s) (run env initial_session))"

subsection \<open>Reaching a stage\<close>

text \<open>
  For stating what happens from a given point of a run on: the credentials are set,
  the OCR models and the driver are created, and the login stage (lines 313-384) ends
  normally in session \<open>s1\<close>, with line 389 next.
\<close>

definition reaches_login_captcha :: "environment \<Rightarrow> session \<Rightarrow> bool" where
  "reaches_login_captcha env s1 =
     (\<not> falsy (env_user env) \<and> \<not> falsy (env_pwd env)
      \<and> ocr_init env = None \<and> selenium_init env = None
      \<and> login_stage env ((startup_delay env initial_session)\<lparr>driver := True\<rparr>)
          = (Return (), s1))"

text \<open>
  Moreover the captcha handling after the login (lines 389-404) ends normally in
  session \<open>s2\<close> and the test of line 409 finds the dashboard, with line 414 next.
\<close>

definition reaches_earn_loop :: "environment \<Rightarrow> session \<Rightarrow> bool" where
  "reaches_earn_loop env s2 =
     (reaches_login_captcha env
        (snd (login_stage env ((startup_delay env initial_session)\<lparr>driver := True\<rparr>)))
      \<and> post_login_captcha env
          (snd (login_stage env ((startup_delay env initial_session)\<lparr>driver := True\<rparr>)))
          = Some (Return (), s2)
      \<and> dashboard_url env = Inr True)"

section \<open>Properties of the captcha geometry\<close>


text \<open>Rounding up to the next multiple of 10, for the number of passes of the loop.\<close>

lemma div10_small: "0 \<le> (r::int) \<Longrightarrow> r < 10 \<Longrightarrow> (r + 9) div 10 = (if r = 0 then 0 else 1)"
proof (cases "r = 0")
  case True
  then show ?thesis by simp
next
  case False
  assume "0 \<le> r" "r < 10"
  with False have "r + 9 = 10 * 1 + (r - 1)" "0 \<le> r - 1" "r - 1 < 10"
    by simp_all
  then have "(r + 9) div 10 = 1"
    by (rule int_div_pos_eq)
  with False show ?thesis by simp
qed

lemma div10_split: "((n::int) + 9) div 10 = n div 10 + (n mod 10 + 9) div 10"
  using div_add1_eq[of n 9 10] by simp

lemma div10_ceiling: "10 * (((n::int) + 9) div 10) + n mod 10 = (if n mod 10 = 0 then n else n + 10)"
proof -
  have r: "0 \<le> n mod 10" "n mod 10 < 10"
    by simp_all
  have n: "10 * (n div 10) + n mod 10 = n"
    by (rule mult_div_mod_eq)
  have d: "(n + 9) div 10 = n div 10 + (if n mod 10 = 0 then 0 else 1)"
    using div10_split[of n] div10_small[OF r] by (simp only:)
  show ?thesis
  proof (cases "n mod 10 = 0")
    case True
    with d have "(n + 9) div 10 = n div 10" by simp
    with n True show ?thesis by simp
  next
    case False
    with d have "(n + 9) div 10 = n div 10 + 1" by simp
    then have "10 * ((n + 9) div 10) + n mod 10 = (10 * (n div 10) + n mod 10) + 10"
      by simp
    with n False show ?thesis by (simp only: if_False)
  qed
qed

text \<open>The number of values of a range with a positive step.\<close>

lemma length_py_range:
  "0 < step \<Longrightarrow> length (py_range start stop step) = nat ((stop - start + step - 1) div step)"
proof (induction start stop step rule: py_range.induct)
  case (1 start stop step)
  show ?case
  proof (cases "start < stop")
    case True
    have "stop - start + step - 1 = (stop - (start + step) + step - 1) + step"
      by simp
    then have "(stop - start + step - 1) div step = (stop - (start + step) + step - 1) div step + 1"
      using 1(2) by (metis div_add_self2 less_irrefl)
    moreover have "0 \<le> (stop - (start + step) + step - 1) div step"
      using 1(2) True by (simp add: pos_imp_zdiv_nonneg_iff)
    ultimately show ?thesis
      using 1 True by (subst py_range.simps) (simp add: nat_add_distrib)
  next
    case False
    then have "(stop - start + step - 1) div step \<le> (step - 1) div step"
      using 1(2) by (intro zdiv_mono1) auto
    also have "(step - 1) div step = 0"
      using 1(2) by (simp add: div_pos_pos_trivial)
    finally have "(stop - start + step - 1) div step \<le> 0" .
    with False 1(2) show ?thesis
      by (subst py_range.simps) simp
  qed
qed

text \<open>
  The gesture as a whole: where the integer part of the distance is a multiple of 10
  the pointer travels that far, and 10 pixels further everywhere else, because the
  loop of line 202 runs once more than line 207 accounts for.
\<close>

lemma drag_total_eq:
  assumes "0 \<le> d"
  shows "drag_total d = (if \<lfloor>d\<rfloor> mod 10 = 0 then \<lfloor>d\<rfloor> else \<lfloor>d\<rfloor> + 10)"
proof -
  have n: "int_of_number d = \<lfloor>d\<rfloor>" "0 \<le> \<lfloor>d\<rfloor>"
    using assms by (simp_all add: int_of_number_def)
  have m: "0 \<le> \<lfloor>d\<rfloor> mod 10"
    by simp
  have rem: "\<lfloor>d\<rfloor> - \<lfloor>d\<rfloor> div 10 * 10 = \<lfloor>d\<rfloor> mod 10"
    by (simp add: minus_div_mult_eq_mod)
  have s: "sum_list (map horizontal_offset (concat (map (\<lambda>x. [MoveByOffset 10 0, Sleep u]) xs)))
             = 10 * int (length xs)" for xs :: "int list" and u
    by (induction xs) simp_all
  have "drag_total d =
          10 * int (length (py_range 0 \<lfloor>d\<rfloor> 10))
          + (if 0 < \<lfloor>d\<rfloor> mod 10 then \<lfloor>d\<rfloor> mod 10 else 0)"
    unfolding drag_total_def gesture_events_def Let_def n rem
    by (simp add: s)
  also have "(if 0 < \<lfloor>d\<rfloor> mod 10 then \<lfloor>d\<rfloor> mod 10 else 0) = \<lfloor>d\<rfloor> mod 10"
    using m by (simp only: split: if_splits) linarith
  also have "int (length (py_range 0 \<lfloor>d\<rfloor> 10)) = (\<lfloor>d\<rfloor> + 9) div 10"
    using n by (simp add: length_py_range pos_imp_zdiv_nonneg_iff)
  finally show ?thesis
    by (simp only: div10_ceiling)
qed

text \<open>
  Claim C9. The claim says that the offsets applied between press and release add up to
  the integer part of the move distance. At distance 25 the script moves 10, 10, 10
  and 5, which is 35; at distance 5 it moves 10 and 5. Only a multiple of 10 is
  travelled exactly.
\<close>

theorem drag_total_overshoots:
  "gesture_events 25 =
     [ClickAndHold, Sleep (Seconds (1 / 2)),
      MoveByOffset 10 0, Sleep (Uniform (1 / 100) (5 / 100)),
      MoveByOffset 10 0, Sleep (Uniform (1 / 100) (5 / 100)),
      MoveByOffset 10 0, Sleep (Uniform (1 / 100) (5 / 100)),
      MoveByOffset 5 0, Sleep (Uniform (1 / 10) (3 / 10)),
      Release, Sleep (Seconds 3)]
   \<and> drag_total 25 = 35 \<and> drag_total 5 = 15 \<and> drag_total 20 = 20"
  by (simp add: drag_total_def gesture_events_def int_of_number_def py_range.simps)

section \<open>Properties of the captcha stage\<close>

lemma ctx_simps [simp]:
  "ctx (emit evs s) = ctx s"
  "ctx (switch_to_default_content s) = MainDocument"
  "ctx (switch_to_frame f s) = InFrame f"
  by (simp_all add: emit_def switch_to_default_content_def switch_to_frame_def)

lemma verify_except_not_Retry: "fst (verify_except e s) \<noteq> Retry"
  by (simp add: verify_except_def)












section \<open>Properties of the balance text\<close>

text \<open>The matches put together are the digits of the text, in order.\<close>

lemma concat_digit_runs: "concat (digit_runs cur str) = cur @ filter is_decimal str"
  by (induction str arbitrary: cur) simp_all



lemma parse_points_eq:
  "parse_points text =
     (if filter is_decimal text = [] then Inl ValueError
      else Inr (decimal_value (filter is_decimal text)))"
  by (simp add: parse_points_def findall_digits_def concat_digit_runs int_of_str_def list_all_iff)


lemma is_decimal_ascii: "c < 128 \<Longrightarrow> is_decimal c = (48 \<le> c \<and> c < 58)"
  by (auto simp: is_decimal_def Nd_zeros_def)

lemma parse_points_1234: "parse_points [0x31, 0x2C, 0x32, 0x33, 0x34] = Inr 1234"
  by (simp add: parse_points_eq is_decimal_ascii decimal_value_def digit_of_def Nd_zeros_def)



section \<open>Properties of the whole run\<close>

text \<open>What the end of the script makes of each outcome of the outer \<open>try\<close>.\<close>

lemma top_level_Return: "top_level (Return u) s = (0, if driver s then emit [Quit] s else s)"
  by (simp add: top_level_def)

lemma top_level_Exit: "top_level (Exit n) s = (n, if driver s then emit [Quit] s else s)"
  by (simp add: top_level_def)

lemma top_level_Raise:
  "top_level (Raise e) s =
     (0, if driver s then emit [Quit] (emit [Send ScriptException] s)
         else emit [Send ScriptException] s)"
  by (simp add: top_level_def emit_def)

lemma main_from_login_captcha:
  assumes "reaches_login_captcha env s1"
  shows "main env =
           Option.bind (post_login_captcha env s1)
             (\<lambda>(out, s). case out of
                  Return u \<Rightarrow> map_option (\<lambda>(out, s). top_level out s) (after_login env s)
                | Raise e \<Rightarrow> Some (top_level (Raise e) s)
                | Exit n \<Rightarrow> Some (top_level (Exit n) s))"
proof -
  from assms have "run env initial_session =
      Option.bind (post_login_captcha env s1)
        (\<lambda>(out, s). case out of
             Return u \<Rightarrow> after_login env s
           | Raise e \<Rightarrow> Some (Raise e, s)
           | Exit n \<Rightarrow> Some (Exit n, s))"
    by (simp add: run_def reaches_login_captcha_def Let_def)
  moreover from assms have "main env = map_option (\<lambda>(out, s). top_level out s) (run env initial_session)"
    by (simp add: main_def reaches_login_captcha_def)
  ultimately show ?thesis
    by (cases "post_login_captcha env s1") (auto split: outcome.splits)
qed

lemma main_from_earn_loop:
  assumes "reaches_earn_loop env s2"
  shows "main env =
           map_option (\<lambda>s. top_level (Return ()) (balance_scrape (balance env) s))
             (earn_loop (earn env) 0 (emit [Sleep (Seconds 2)] s2))"
proof -
  let ?s1 = "snd (login_stage env ((startup_delay env initial_session)\<lparr>driver := True\<rparr>))"
  from assms have r: "reaches_login_captcha env ?s1"
    and p: "post_login_captcha env ?s1 = Some (Return (), s2)"
    and d: "dashboard_url env = Inr True"
    by (simp_all add: reaches_earn_loop_def)
  from d have "after_login env s2 =
      map_option (\<lambda>s. (Return (), balance_scrape (balance env) s))
        (earn_loop (earn env) 0 (emit [Sleep (Seconds 2)] s2))"
    by (simp add: after_login_def)
  with main_from_login_captcha[OF r] p show ?thesis
    by (simp add: option.map_comp comp_def)
qed

section \<open>Properties of the balance scrape\<close>






section \<open>Properties of the login stage\<close>

lemma login_pass_Dashboard:
  "login_pass Dashboard k ok s = Inr (k, True, emit [LoginTry] s)"
  by (simp add: login_pass_def login_try_def)

lemma login_pass_failed:
  assumes "outcome \<noteq> Dashboard"
  shows "login_pass outcome k False s =
           (if k + 1 < max_retries
            then Inr (k + 1, False,
                      emit [Sleep (Seconds (of_nat ((k + 1) * 2))), Refresh] (emit [LoginTry] s))
            else Inl (PlainException, emit [LoginTry] s))"
  using assms
  by (cases outcome)
     (auto simp: login_pass_def login_try_def login_except_def max_retries_def Let_def)

lemma login_loop_done:
  "login_loop attempts k True s = (Return True, s)"
  "login_loop attempts 3 ok s = (Return ok, s)"
  by (simp_all add: login_loop.simps max_retries_def)

lemma login_loop_step:
  "k < 3 \<Longrightarrow> login_loop attempts k False s =
     (if attempts k = Dashboard then (Return True, emit [LoginTry] s)
      else if k + 1 < 3
           then login_loop attempts (k + 1) False
                  (emit [Sleep (Seconds (of_nat ((k + 1) * 2))), Refresh] (emit [LoginTry] s))
           else (Raise PlainException, emit [LoginTry] s))"
  by (subst login_loop.simps)
     (simp add: login_pass_Dashboard login_pass_failed login_loop_done max_retries_def)

lemma emit_emit: "emit b (emit a s) = emit (a @ b) s"
  by (simp add: emit_def)

lemma login_loop_eq:
  "login_loop attempts 0 False s =
     (if attempts 0 = Dashboard then (Return True, emit [LoginTry] s)
      else if attempts 1 = Dashboard
      then (Return True, emit [LoginTry, Sleep (Seconds 2), Refresh, LoginTry] s)
      else if attempts 2 = Dashboard
      then (Return True,
            emit [LoginTry, Sleep (Seconds 2), Refresh, LoginTry,
                  Sleep (Seconds 4), Refresh, LoginTry] s)
      else (Raise PlainException,
            emit [LoginTry, Sleep (Seconds 2), Refresh, LoginTry,
                  Sleep (Seconds 4), Refresh, LoginTry] s))"
proof -
  have 2: "login_loop attempts 2 False s' =
     (if attempts 2 = Dashboard then (Return True, emit [LoginTry] s')
      else (Raise PlainException, emit [LoginTry] s'))" for s'
    using login_loop_step[of 2 attempts s'] by simp
  have 1: "login_loop attempts 1 False s' =
     (if attempts 1 = Dashboard then (Return True, emit [LoginTry] s')
      else login_loop attempts 2 False (emit [Sleep (Seconds 4), Refresh] (emit [LoginTry] s')))" for s'
    using login_loop_step[of 1 attempts s'] by (simp add: numeral_2_eq_2)
  have 0: "login_loop attempts 0 False s =
     (if attempts 0 = Dashboard then (Return True, emit [LoginTry] s)
      else login_loop attempts 1 False (emit [Sleep (Seconds 2), Refresh] (emit [LoginTry] s)))"
    using login_loop_step[of 0 attempts s] by simp
  show ?thesis
    by (simp add: 0 1[unfolded One_nat_def] 2 emit_emit)
qed

text \<open>
  Claim C5. The login loop makes at most three passes. It stops at the first pass that
  reaches the dashboard; after a failed first pass it sleeps 2 seconds and reloads,
  after a failed second pass it sleeps 4 seconds and reloads, and after a failed third
  pass it gives up by raising. The schedule does not depend on how a pass fails (the
  URL without the marker, a timeout or another exception): every failed pass made
  while the counter is \<open>k\<close> and \<open>k + 1\<close> is below the bound sets the counter to
  \<open>k + 1\<close>, sleeps \<open>2 * (k + 1)\<close> seconds and reloads.
\<close>

theorem login_loop_bounded_backoff:
  "login_loop attempts 0 False s =
     (if attempts 0 = Dashboard then (Return True, emit [LoginTry] s)
      else if attempts 1 = Dashboard
      then (Return True, emit [LoginTry, Sleep (Seconds 2), Refresh, LoginTry] s)
      else if attempts 2 = Dashboard
      then (Return True,
            emit [LoginTry, Sleep (Seconds 2), Refresh, LoginTry,
                  Sleep (Seconds 4), Refresh, LoginTry] s)
      else (Raise PlainException,
            emit [LoginTry, Sleep (Seconds 2), Refresh, LoginTry,
                  Sleep (Seconds 4), Refresh, LoginTry] s))
   \<and> (\<forall>outcome k. outcome \<noteq> Dashboard \<and> k + 1 < max_retries \<longrightarrow>
          login_pass outcome k False s' =
            Inr (k + 1, False,
                 emit [LoginTry, Sleep (Seconds (of_nat (2 * (k + 1)))), Refresh] s'))
   \<and> length (filter (\<lambda>e. e = LoginTry) (trace (snd (login_loop attempts 0 False s))))
       \<le> length (filter (\<lambda>e. e = LoginTry) (trace s)) + 3"
proof (intro conjI allI impI)
  show "login_loop attempts 0 False s =
     (if attempts 0 = Dashboard then (Return True, emit [LoginTry] s)
      else if attempts 1 = Dashboard
      then (Return True, emit [LoginTry, Sleep (Seconds 2), Refresh, LoginTry] s)
      else if attempts 2 = Dashboard
      then (Return True,
            emit [LoginTry, Sleep (Seconds 2), Refresh, LoginTry,
                  Sleep (Seconds 4), Refresh, LoginTry] s)
      else (Raise PlainException,
            emit [LoginTry, Sleep (Seconds 2), Refresh, LoginTry,
                  Sleep (Seconds 4), Refresh, LoginTry] s))"
    by (rule login_loop_eq)
next
  fix outcome k
  assume "outcome \<noteq> Dashboard \<and> k + 1 < max_retries"
  then show "login_pass outcome k False s' =
            Inr (k + 1, False,
                 emit [LoginTry, Sleep (Seconds (of_nat (2 * (k + 1)))), Refresh] s')"
    by (simp add: login_pass_failed emit_emit mult.commute)
next
  show "length (filter (\<lambda>e. e = LoginTry) (trace (snd (login_loop attempts 0 False s))))
       \<le> length (filter (\<lambda>e. e = LoginTry) (trace s)) + 3"
    by (simp add: login_loop_eq emit_def)
qed

text \<open>Three failed passes, one of each kind, and a timed-out second pass on its own.\<close>

theorem login_loop_bounded_backoff_witness:
  "login_loop
     (\<lambda>n. if n = 0 then StillLogin
           else if n = 1 then LoginRaises TimeoutException
           else LoginRaises WebDriverException)
     0 False initial_session
   = (Raise PlainException,
      \<lparr>driver = False, ctx = MainDocument,
        trace = [LoginTry, Sleep (Seconds 2), Refresh, LoginTry,
                 Sleep (Seconds 4), Refresh, LoginTry]\<rparr>)
   \<and> login_pass (LoginRaises TimeoutException) 1 False initial_session
       = Inr (2, False,
              \<lparr>driver = False, ctx = MainDocument,
                trace = [LoginTry, Sleep (Seconds 4), Refresh]\<rparr>)"
proof -
  let ?a = "\<lambda>n::nat. if n = 0 then StillLogin
           else if n = 1 then LoginRaises TimeoutException
           else LoginRaises WebDriverException"
  note T = login_loop_bounded_backoff[of ?a initial_session initial_session]
  have 1: "login_loop ?a 0 False initial_session
   = (Raise PlainException,
      \<lparr>driver = False, ctx = MainDocument,
        trace = [LoginTry, Sleep (Seconds 2), Refresh, LoginTry,
                 Sleep (Seconds 4), Refresh, LoginTry]\<rparr>)"
    using T[THEN conjunct1] by (simp add: emit_def initial_session_def)
  have "LoginRaises TimeoutException \<noteq> Dashboard \<and> 1 + 1 < max_retries"
    by (simp add: max_retries_def)
  with T[THEN conjunct2, THEN conjunct1, rule_format, of "LoginRaises TimeoutException" 1]
  have 2: "login_pass (LoginRaises TimeoutException) 1 False initial_session
       = Inr (2, False,
              \<lparr>driver = False, ctx = MainDocument,
                trace = [LoginTry, Sleep (Seconds 4), Refresh]\<rparr>)"
    by (simp add: emit_def initial_session_def)
  from 1 2 show ?thesis by blast
qed

lemma login_stage_failed:
  assumes "open_login env = None"
    and "login env 0 \<noteq> Dashboard" "login env 1 \<noteq> Dashboard" "login env 2 \<noteq> Dashboard"
  shows "login_stage env s =
           (Raise PlainException,
            emit [Get LoginPage, LoginTry, Sleep (Seconds 2), Refresh, LoginTry,
                  Sleep (Seconds 4), Refresh, LoginTry] s)"
  using assms by (simp add: login_stage_def login_loop_eq emit_emit)

text \<open>
  Claim C2. The claim says that a login that fails three times ends the process with
  exit code 1. In the script the third failure raises inside the loop (lines 358, 367,
  376), so the test of line 380 with its \<open>sys.exit(1)\<close> is never reached; the
  exception is caught by the handler of line 521, which sends the "script exception"
  notification, the driver is quit, and the script falls off its end: exit code 0.
\<close>

theorem login_failure_exits_zero:
  assumes "\<not> falsy (env_user env)" and "\<not> falsy (env_pwd env)"
    and "ocr_init env = None" and "selenium_init env = None" and "open_login env = None"
    and "login env 0 \<noteq> Dashboard" and "login env 1 \<noteq> Dashboard"
    and "login env 2 \<noteq> Dashboard"
  shows "main env =
           Some (0, emit [Get LoginPage, LoginTry, Sleep (Seconds 2), Refresh, LoginTry,
                          Sleep (Seconds 4), Refresh, LoginTry, Send ScriptException, Quit]
                      ((startup_delay env initial_session)\<lparr>driver := True\<rparr>))"
proof -
  have "run env initial_session =
          Some (Raise PlainException,
                emit [Get LoginPage, LoginTry, Sleep (Seconds 2), Refresh, LoginTry,
                      Sleep (Seconds 4), Refresh, LoginTry]
                  ((startup_delay env initial_session)\<lparr>driver := True\<rparr>))"
    using assms by (simp add: run_def login_stage_failed Let_def)
  with assms(1,2) show ?thesis
    by (simp add: main_def top_level_Raise emit_def)
qed

text \<open>
  Wrong credentials: the wait of line 338 for the dashboard URL times out in each of
  the three passes.
\<close>

theorem login_failure_exits_zero_witness:
  "main \<lparr>env_user = Some ''user'', env_pwd = Some ''wrong'', env_debug = False,
          ocr_init = None, selenium_init = None, open_login = None,
          login = (\<lambda>n. LoginRaises TimeoutException),
          login_captcha_frame = Some TimeoutException,
          login_captcha = (\<lambda>k. \<lparr>iframe_wait = Some TimeoutException,
                                  challenge = Inl TimeoutException,
                                  gesture = None, failure_text = Inr False,
                                  refresh_lookup = None, refresh_click = None\<rparr>),
          dashboard_url = Inr False,
          earn = (\<lambda>n. \<lparr>page_load = Some TimeoutException, clickable = (\<lambda>l. False),
                         click_earn = None, earn_captcha_frame = Some TimeoutException,
                         earn_captcha = (\<lambda>k. \<lparr>iframe_wait = Some TimeoutException,
                                                challenge = Inl TimeoutException,
                                                gesture = None, failure_text = Inr False,
                                                refresh_lookup = None, refresh_click = None\<rparr>)\<rparr>),
          balance = Inl TimeoutException\<rparr>
   = Some (0, \<lparr>driver = True, ctx = MainDocument,
               trace = [Sleep (RandInt 5 600), Get LoginPage,
                        LoginTry, Sleep (Seconds 2), Refresh,
                        LoginTry, Sleep (Seconds 4), Refresh,
                        LoginTry, Send ScriptException, Quit]\<rparr>)"
  by (rule trans[OF login_failure_exits_zero])
     (simp_all add: falsy_def startup_delay_def emit_def initial_session_def)

text \<open>Lines 254-259: missing credentials end the process with exit code 1.\<close>

lemma missing_credentials_exit_1:
  "falsy (env_user env) \<or> falsy (env_pwd env)
     \<Longrightarrow> main env = Some (1, emit [Send ConfigError] initial_session)"
  by (simp add: main_def)

section \<open>Properties of the earn loop\<close>

lemma driver_simps [simp]:
  "driver (emit evs s) = driver s"
  "driver (switch_to_default_content s) = driver s"
  "driver (switch_to_frame f s) = driver s"
  by (simp_all add: emit_def switch_to_default_content_def switch_to_frame_def)

lemma trace_simps [simp]:
  "trace (emit evs s) = trace s @ evs"
  "trace (switch_to_default_content s) = trace s"
  "trace (switch_to_frame f s) = trace s"
  by (simp_all add: emit_def switch_to_default_content_def switch_to_frame_def)

lemma emit_Nil [simp]: "emit [] s = s"
  by (simp add: emit_def)

lemma find_earn_button_eq:
  "find_earn_button found ls s =
     (find found ls,
      emit (map WaitClickable
              (takeWhile (\<lambda>l. \<not> found l) ls
               @ (case find found ls of None \<Rightarrow> [] | Some l \<Rightarrow> [l]))) s)"
proof (induction ls arbitrary: s)
  case Nil
  then show ?case by simp
next
  case (Cons a ls)
  show ?case
  proof (cases "found a")
    case True
    then show ?thesis by simp
  next
    case False
    then show ?thesis
      by (simp add: Cons.IH emit_emit)
  qed
qed

lemma find_earn_button_none:
  assumes "\<forall>l\<in>set ls. \<not> found l"
  shows "find_earn_button found ls s = (None, emit (map WaitClickable ls) s)"
proof -
  from assms have f: "find found ls = None"
    by (simp add: find_None_iff)
  from assms have t: "takeWhile (\<lambda>l. \<not> found l) ls = ls"
    by (simp add: takeWhile_eq_all_conv)
  show ?thesis
    unfolding find_earn_button_eq f t by simp
qed

lemma earn_pass_no_button:
  assumes "\<forall>l\<in>set strategies. \<not> clickable a l"
  shows "earn_pass a s =
           Some (Continue,
                 emit ([Get EarnPage]
                       @ (if page_load a = None
                          then [Sleep (Seconds 3)] @ map WaitClickable strategies
                               @ [Refresh, Sleep (Uniform 3 5)]
                          else [Sleep (Uniform 3 5)])) s)"
  using assms
  by (cases "page_load a")
     (simp_all add: earn_pass_def earn_try_def find_earn_button_none emit_emit)

lemma earn_loop_step:
  "n < 3 \<Longrightarrow> earn_loop attempts n s =
     (case earn_pass (attempts n) s of
        None \<Rightarrow> None
      | Some (Break, s) \<Rightarrow> Some s
      | Some (Continue, s) \<Rightarrow> earn_loop attempts (Suc n) s)"
  by (subst earn_loop.simps)
     (simp add: max_earn_retries_def
           cong: option.case_cong prod.case_cong loop_control.case_cong)

lemma earn_loop_end:
  "earn_loop attempts (Suc (Suc (Suc 0))) s = Some (emit [Send PartialFailure] s)"
  by (subst earn_loop.simps) (simp add: max_earn_retries_def)

lemma earn_loop_no_button:
  assumes "\<forall>n<max_earn_retries. \<forall>l\<in>set strategies. \<not> clickable (attempts n) l"
  shows "earn_loop attempts 0 s =
           (let ev = (\<lambda>a. [Get EarnPage]
                       @ (if page_load a = None
                          then [Sleep (Seconds 3)] @ map WaitClickable strategies
                               @ [Refresh, Sleep (Uniform 3 5)]
                          else [Sleep (Uniform 3 5)]))
            in Some (emit (ev (attempts 0) @ ev (attempts 1) @ ev (attempts 2)
                           @ [Send PartialFailure]) s))"
proof -
  define ev where "ev = (\<lambda>a::earn_attempt. [Get EarnPage]
                       @ (if page_load a = None
                          then [Sleep (Seconds 3)] @ map WaitClickable strategies
                               @ [Refresh, Sleep (Uniform 3 5)]
                          else [Sleep (Uniform 3 5)]))"
  have p: "earn_pass (attempts n) s' = Some (Continue, emit (ev (attempts n)) s')"
    if "n < 3" for n s'
    using that assms unfolding ev_def
    by (intro earn_pass_no_button) (simp add: max_earn_retries_def)
  have "earn_loop attempts 0 s = earn_loop attempts (Suc 0) (emit (ev (attempts 0)) s)"
    by (simp add: earn_loop_step p)
  also have "\<dots> = earn_loop attempts (Suc (Suc 0))
                     (emit (ev (attempts (Suc 0))) (emit (ev (attempts 0)) s))"
    by (simp add: earn_loop_step p)
  also have "\<dots> = earn_loop attempts (Suc (Suc (Suc 0)))
                     (emit (ev (attempts (Suc (Suc 0))))
                        (emit (ev (attempts (Suc 0))) (emit (ev (attempts 0)) s)))"
    by (simp add: earn_loop_step p)
  also have "\<dots> = Some (emit (ev (attempts 0) @ ev (attempts 1) @ ev (attempts 2)
                             @ [Send PartialFailure]) s)"
    by (simp add: earn_loop_end emit_emit numeral_2_eq_2)
  finally show ?thesis
    by (simp add: ev_def Let_def)
qed

lemma balance_except_sends:
  "\<exists>c. balance_except e s = emit [Send (ResultUnknown c)] s"
  unfolding balance_except_def by (auto intro: exI)

lemma balance_scrape_sends:
  "\<exists>n. n \<noteq> PartialFailure \<and> balance_scrape b s = emit [ScrapeBalance, Send n] s"
proof -
  have e: "\<exists>n. n \<noteq> PartialFailure
             \<and> balance_except e (emit [ScrapeBalance] s) = emit [ScrapeBalance, Send n] s" for e
    using balance_except_sends[of e "emit [ScrapeBalance] s"]
    by (auto simp: emit_emit)
  show ?thesis
  proof (cases b)
    case (Inl e')
    with e[of e'] show ?thesis by (simp add: balance_scrape_def)
  next
    case (Inr t)
    show ?thesis
    proof (cases t)
      case None
      with Inr e[of TypeError] show ?thesis by (simp add: balance_scrape_def)
    next
      case (Some points_raw)
      show ?thesis
      proof (cases "parse_points points_raw")
        case (Inl e')
        with Inr Some e[of e'] show ?thesis by (simp add: balance_scrape_def)
      next
        case (Inr p)
        have "SignInSuccess p (currency_str p) \<noteq> PartialFailure"
          by simp
        with \<open>b = Inr t\<close> Some Inr show ?thesis
          by (auto simp: balance_scrape_def emit_emit intro: exI)
      qed
    qed
  qed
qed

text \<open>
  Claim C6. The search for the earn button waits for the strategies in the order of
  the list and stops at the first that gives an element: its result is the first
  strategy of the list that succeeds, and the strategies waited for are those before
  it and itself. If no strategy succeeds in any of the three passes (whether the page
  loads or not), the loop ends through its \<open>else\<close> clause, which sends the "partly
  failed" notification; a run that reached the loop then goes on to the balance
  scrape and ends with exit code 0, and the notification is sent exactly once from
  then on. \<open>ev a\<close> lists the effects of a pass that finds no button.
\<close>

theorem earn_button_discovery:
  "find_earn_button found ls s =
     (find found ls,
      emit (map WaitClickable
              (takeWhile (\<lambda>l. \<not> found l) ls
               @ (case find found ls of None \<Rightarrow> [] | Some l \<Rightarrow> [l]))) s)
   \<and> (let ev = (\<lambda>a. [Get EarnPage]
                   @ (if page_load a = None
                      then [Sleep (Seconds 3)] @ map WaitClickable strategies
                           @ [Refresh, Sleep (Uniform 3 5)]
                      else [Sleep (Uniform 3 5)]))
      in ((\<forall>n<max_earn_retries. \<forall>l\<in>set strategies. \<not> clickable (attempts n) l) \<longrightarrow>
            earn_loop attempts 0 s
              = Some (emit (ev (attempts 0) @ ev (attempts 1) @ ev (attempts 2)
                            @ [Send PartialFailure]) s))
         \<and> (reaches_earn_loop env s2
             \<and> (\<forall>n<max_earn_retries. \<forall>l\<in>set strategies. \<not> clickable (earn env n) l) \<longrightarrow>
             (\<exists>n. n \<noteq> PartialFailure
                \<and> main env =
                    Some (0, emit ([Sleep (Seconds 2)] @ ev (earn env 0) @ ev (earn env 1)
                                   @ ev (earn env 2)
                                   @ [Send PartialFailure, ScrapeBalance, Send n]
                                   @ (if driver s2 then [Quit] else [])) s2)
                \<and> count_list ([Sleep (Seconds 2)] @ ev (earn env 0) @ ev (earn env 1)
                                @ ev (earn env 2)
                                @ [Send PartialFailure, ScrapeBalance, Send n]
                                @ (if driver s2 then [Quit] else []))
                               (Send PartialFailure) = 1)))"
proof -
  define ev where "ev = (\<lambda>a::earn_attempt. [Get EarnPage]
                   @ (if page_load a = None
                      then [Sleep (Seconds 3)] @ map WaitClickable strategies
                           @ [Refresh, Sleep (Uniform 3 5)]
                      else [Sleep (Uniform 3 5)]))"
  have loop: "earn_loop a 0 s'
              = Some (emit (ev (a 0) @ ev (a 1) @ ev (a 2) @ [Send PartialFailure]) s')"
    if "\<forall>n<max_earn_retries. \<forall>l\<in>set strategies. \<not> clickable (a n) l" for a s'
    using earn_loop_no_button[OF that, of s'] by (simp add: ev_def Let_def)
  have c: "count_list (ev a) (Send PartialFailure) = 0" for a
    by (simp add: ev_def strategies_def)
  have m: "\<exists>n. n \<noteq> PartialFailure
                \<and> main env =
                    Some (0, emit ([Sleep (Seconds 2)] @ ev (earn env 0) @ ev (earn env 1)
                                   @ ev (earn env 2)
                                   @ [Send PartialFailure, ScrapeBalance, Send n]
                                   @ (if driver s2 then [Quit] else [])) s2)
                \<and> count_list ([Sleep (Seconds 2)] @ ev (earn env 0) @ ev (earn env 1)
                                @ ev (earn env 2)
                                @ [Send PartialFailure, ScrapeBalance, Send n]
                                @ (if driver s2 then [Quit] else []))
                               (Send PartialFailure) = 1"
    if r: "reaches_earn_loop env s2"
      and n: "\<forall>n<max_earn_retries. \<forall>l\<in>set strategies. \<not> clickable (earn env n) l"
  proof -
    let ?s3 = "emit (ev (earn env 0) @ ev (earn env 1) @ ev (earn env 2) @ [Send PartialFailure])
                 (emit [Sleep (Seconds 2)] s2)"
    from balance_scrape_sends[of "balance env" ?s3] obtain n
      where n1: "n \<noteq> PartialFailure"
        and n2: "balance_scrape (balance env) ?s3 = emit [ScrapeBalance, Send n] ?s3"
      by blast
    from main_from_earn_loop[OF r] loop[OF n, of "emit [Sleep (Seconds 2)] s2"] n2
    have "main env = Some (top_level (Return ()) (emit [ScrapeBalance, Send n] ?s3))"
      by simp
    then have "main env =
                    Some (0, emit ([Sleep (Seconds 2)] @ ev (earn env 0) @ ev (earn env 1)
                                   @ ev (earn env 2)
                                   @ [Send PartialFailure, ScrapeBalance, Send n]
                                   @ (if driver s2 then [Quit] else [])) s2)"
      by (simp add: top_level_Return emit_emit)
    moreover from n1 have "count_list ([Sleep (Seconds 2)] @ ev (earn env 0) @ ev (earn env 1)
                                @ ev (earn env 2)
                                @ [Send PartialFailure, ScrapeBalance, Send n]
                                @ (if driver s2 then [Quit] else []))
                               (Send PartialFailure) = 1"
      by (simp add: c)
    ultimately show ?thesis using n1 by blast
  qed
  show ?thesis
    unfolding Let_def ev_def[symmetric]
    using loop[of attempts s] m
    by (simp add: find_earn_button_eq)
qed

text \<open>
  Where the third and the fourth strategy would both succeed, the third is taken and the
  fourth is not tried. A run in which the login succeeds, no captcha appears, the
  second page load fails and no strategy ever finds the button.
\<close>

theorem earn_button_discovery_witness:
  "find_earn_button (\<lambda>l. l = HrefCss \<or> l = ClassXPath) strategies initial_session
     = (Some HrefCss,
        \<lparr>driver = False, ctx = MainDocument,
          trace = [WaitClickable AbsoluteXPath, WaitClickable HrefTextXPath,
                   WaitClickable HrefCss]\<rparr>)
   \<and> (\<exists>n. n \<noteq> PartialFailure \<and>
        main \<lparr>env_user = Some ''user'', env_pwd = Some ''secret'', env_debug = True,
               ocr_init = None, selenium_init = None, open_login = None,
               login = (\<lambda>n. Dashboard),
               login_captcha_frame = Some TimeoutException,
               login_captcha = (\<lambda>k. \<lparr>iframe_wait = Some TimeoutException,
                                       challenge = Inl TimeoutException,
                                       gesture = None, failure_text = Inr False,
                                       refresh_lookup = None, refresh_click = None\<rparr>),
               dashboard_url = Inr True,
               earn = (\<lambda>n. \<lparr>page_load = (if n = 1 then Some WebDriverException else None),
                              clickable = (\<lambda>l. False),
                              click_earn = None, earn_captcha_frame = Some TimeoutException,
                              earn_captcha = (\<lambda>k. \<lparr>iframe_wait = Some TimeoutException,
                                                     challenge = Inl TimeoutException,
                                                     gesture = None, failure_text = Inr False,
                                                     refresh_lookup = None,
                                                     refresh_click = None\<rparr>)\<rparr>),
               balance = Inr (Some [0x36, 0x30, 0x30, 0x30])\<rparr>
        = Some (0, \<lparr>driver = True, ctx = MainDocument,
                    trace = [Get LoginPage, LoginTry, Sleep (Seconds 2),
                             Get EarnPage, Sleep (Seconds 3),
                             WaitClickable AbsoluteXPath, WaitClickable HrefTextXPath,
                             WaitClickable HrefCss, WaitClickable ClassXPath,
                             Refresh, Sleep (Uniform 3 5),
                             Get EarnPage, Sleep (Uniform 3 5),
                             Get EarnPage, Sleep (Seconds 3),
                             WaitClickable AbsoluteXPath, WaitClickable HrefTextXPath,
                             WaitClickable HrefCss, WaitClickable ClassXPath,
                             Refresh, Sleep (Uniform 3 5),
                             Send PartialFailure, ScrapeBalance, Send n, Quit]\<rparr>))"
proof -
  let ?r = "\<lparr>iframe_wait = Some TimeoutException, challenge = Inl TimeoutException,
             gesture = None, failure_text = Inr False,
             refresh_lookup = None, refresh_click = None\<rparr>"
  let ?env = "\<lparr>env_user = Some ''user'', env_pwd = Some ''secret'', env_debug = True,
               ocr_init = None, selenium_init = None, open_login = None,
               login = (\<lambda>n. Dashboard),
               login_captcha_frame = Some TimeoutException,
               login_captcha = (\<lambda>k. ?r),
               dashboard_url = Inr True,
               earn = (\<lambda>n. \<lparr>page_load = (if n = 1 then Some WebDriverException else None),
                              clickable = (\<lambda>l. False),
                              click_earn = None, earn_captcha_frame = Some TimeoutException,
                              earn_captcha = (\<lambda>k. ?r)\<rparr>),
               balance = Inr (Some [0x36, 0x30, 0x30, 0x30])\<rparr>"
  let ?s2 = "\<lparr>driver = True, ctx = MainDocument, trace = [Get LoginPage, LoginTry]\<rparr>"
  note T = earn_button_discovery[of "\<lambda>l. l = HrefCss \<or> l = ClassXPath" strategies
             initial_session "earn ?env" ?env ?s2, unfolded Let_def]
  have 1: "find_earn_button (\<lambda>l. l = HrefCss \<or> l = ClassXPath) strategies initial_session
     = (Some HrefCss,
        \<lparr>driver = False, ctx = MainDocument,
          trace = [WaitClickable AbsoluteXPath, WaitClickable HrefTextXPath,
                   WaitClickable HrefCss]\<rparr>)"
    unfolding T[THEN conjunct1]
    by (simp add: strategies_def emit_def initial_session_def)
  have r: "reaches_earn_loop ?env ?s2"
    by (simp add: reaches_earn_loop_def reaches_login_captcha_def falsy_def startup_delay_def
        initial_session_def login_stage_def login_loop.simps login_pass_def login_try_def
        max_retries_def emit_def post_login_captcha_def login_captcha_except_def
        switch_to_default_content_def)
  have n: "\<forall>n<max_earn_retries. \<forall>l\<in>set strategies. \<not> clickable (earn ?env n) l"
    by simp
  from T[THEN conjunct2, THEN conjunct2, rule_format, OF conjI, OF r n]
  obtain n where n1: "n \<noteq> PartialFailure"
    and n2: "main ?env = Some (0, \<lparr>driver = True, ctx = MainDocument,
                    trace = [Get LoginPage, LoginTry, Sleep (Seconds 2),
                             Get EarnPage, Sleep (Seconds 3),
                             WaitClickable AbsoluteXPath, WaitClickable HrefTextXPath,
                             WaitClickable HrefCss, WaitClickable ClassXPath,
                             Refresh, Sleep (Uniform 3 5),
                             Get EarnPage, Sleep (Uniform 3 5),
                             Get EarnPage, Sleep (Seconds 3),
                             WaitClickable AbsoluteXPath, WaitClickable HrefTextXPath,
                             WaitClickable HrefCss, WaitClickable ClassXPath,
                             Refresh, Sleep (Uniform 3 5),
                             Send PartialFailure, ScrapeBalance, Send n, Quit]\<rparr>)"
    by (auto simp: emit_def strategies_def)
  from 1 n1 n2 show ?thesis
    by blast
qed

section \<open>Properties of the two captcha call sites\<close>

text \<open>An exception that leaves \<open>process_captcha\<close> is never a timeout (lines 124-126).\<close>

lemma process_captcha_no_timeout:
  assumes "process_captcha rounds k s = Some (Inl e, s')"
  shows "e \<noteq> TimeoutException"
proof (cases "iframe_wait (rounds k)")
  case (Some e')
  with assms show ?thesis
    by (subst (asm) process_captcha.simps) (auto simp: Let_def split: if_splits)
next
  case None
  with assms show ?thesis
    by (subst (asm) process_captcha.simps)
       (auto simp: Let_def
             split: prod.splits attempt.splits sum.splits Option.bind_splits if_splits)
qed

lemma post_login_captcha_failed:
  assumes "login_captcha_frame env = None"
    and "process_captcha (login_captcha env) 0 (switch_to_frame Tcaptcha_iframe_dy s1) = Some (res, s2)"
    and "res \<noteq> Inr True"
  shows "post_login_captcha env s1 = Some (Exit 1, emit [Send LoginCaptchaFailed] s2)"
proof (cases res)
  case (Inl e)
  with assms(2) have "e \<noteq> TimeoutException"
    using process_captcha_no_timeout by blast
  with assms Inl show ?thesis
    by (simp add: post_login_captcha_def login_captcha_except_def)
next
  case (Inr b)
  with assms show ?thesis
    by (simp add: post_login_captcha_def login_captcha_except_def)
qed

lemma post_reward_captcha_failed:
  assumes "earn_captcha_frame a = None"
    and "process_captcha (earn_captcha a) 0 (switch_to_frame Tcaptcha_iframe_dy s) = Some (res, s')"
    and "res \<noteq> Inr True"
  shows "post_reward_captcha a s = Some (emit [Send EarnCaptchaFailed] s')"
proof (cases res)
  case (Inl e)
  with assms(2) have "e \<noteq> TimeoutException"
    using process_captcha_no_timeout by blast
  with assms Inl show ?thesis
    by (simp add: post_reward_captcha_def earn_captcha_except_def)
next
  case (Inr b)
  with assms show ?thesis
    by (simp add: post_reward_captcha_def earn_captcha_except_def)
qed

lemma earn_pass_clicked:
  assumes "page_load a = None"
    and "find_earn_button (clickable a) strategies (emit [Get EarnPage, Sleep (Seconds 3)] s) = (Some l, s3)"
    and "click_earn a = None"
  shows "earn_pass a s =
           map_option (\<lambda>s. (Break, s))
             (post_reward_captcha a (emit [Sleep (Uniform (1 / 2) (3 / 2)), ClickEarn] s3))"
  using assms
  by (simp add: earn_pass_def earn_try_def emit_emit option.map_comp comp_def)

lemma earn_loop_captcha_failed:
  assumes "n < max_earn_retries"
    and "page_load (attempts n) = None"
    and "find_earn_button (clickable (attempts n)) strategies
           (emit [Get EarnPage, Sleep (Seconds 3)] s) = (Some l, s3)"
    and "click_earn (attempts n) = None"
    and "earn_captcha_frame (attempts n) = None"
    and "process_captcha (earn_captcha (attempts n)) 0
           (switch_to_frame Tcaptcha_iframe_dy
              (emit [Sleep (Uniform (1 / 2) (3 / 2)), ClickEarn] s3)) = Some (res, s4)"
    and "res \<noteq> Inr True"
  shows "earn_loop attempts n s = Some (emit [Send EarnCaptchaFailed] s4)"
proof -
  have "earn_pass (attempts n) s = Some (Break, emit [Send EarnCaptchaFailed] s4)"
    using earn_pass_clicked[OF assms(2,3,4)] post_reward_captcha_failed[OF assms(5,6,7)]
    by simp
  with assms(1) show ?thesis
    by (subst earn_loop.simps) simp
qed

text \<open>
  Claim C7. A captcha failure is a call of \<open>process_captcha\<close> that comes back with
  anything but \<open>True\<close>.
  \<^item> After the login (lines 389-404): the failure is reported and the process ends
    with exit code 1.
  \<^item> After the reward click, in whichever pass \<open>n\<close> of the earn loop it was made
    (lines 452-466): the failure is reported and the loop is left by its \<open>break\<close>.
  \<^item> A run whose earn loop ends so goes on to the balance scrape, whose notification
    \<open>m\<close> follows, and ends with exit code 0.
\<close>

theorem captcha_failure_fatal_only_after_login:
  "(reaches_login_captcha env s1 \<and> login_captcha_frame env = None
    \<and> process_captcha (login_captcha env) 0 (switch_to_frame Tcaptcha_iframe_dy s1)
        = Some (res, s2)
    \<and> res \<noteq> Inr True \<longrightarrow>
    main env = Some (1, emit ([Send LoginCaptchaFailed] @ (if driver s2 then [Quit] else [])) s2))
   \<and> (n < max_earn_retries \<and> page_load (attempts n) = None
      \<and> find_earn_button (clickable (attempts n)) strategies
           (emit [Get EarnPage, Sleep (Seconds 3)] t) = (Some l, t3)
      \<and> click_earn (attempts n) = None \<and> earn_captcha_frame (attempts n) = None
      \<and> process_captcha (earn_captcha (attempts n)) 0
           (switch_to_frame Tcaptcha_iframe_dy
              (emit [Sleep (Uniform (1 / 2) (3 / 2)), ClickEarn] t3)) = Some (res', t4)
      \<and> res' \<noteq> Inr True \<longrightarrow>
      earn_loop attempts n t = Some (emit [Send EarnCaptchaFailed] t4))
   \<and> (reaches_earn_loop env' t2
      \<and> earn_loop (earn env') 0 (emit [Sleep (Seconds 2)] t2)
          = Some (emit [Send EarnCaptchaFailed] t5) \<longrightarrow>
      (\<exists>m. main env' =
             Some (0, emit ([Send EarnCaptchaFailed, ScrapeBalance, Send m]
                            @ (if driver t5 then [Quit] else [])) t5)))"
proof (intro conjI impI)
  assume a: "reaches_login_captcha env s1 \<and> login_captcha_frame env = None
    \<and> process_captcha (login_captcha env) 0 (switch_to_frame Tcaptcha_iframe_dy s1)
        = Some (res, s2)
    \<and> res \<noteq> Inr True"
  then have "post_login_captcha env s1 = Some (Exit 1, emit [Send LoginCaptchaFailed] s2)"
    using post_login_captcha_failed[of env s1 res s2] by blast
  with a main_from_login_captcha[of env s1]
  show "main env = Some (1, emit ([Send LoginCaptchaFailed] @ (if driver s2 then [Quit] else [])) s2)"
    by (simp add: top_level_Exit emit_emit)
next
  assume a: "n < max_earn_retries \<and> page_load (attempts n) = None
      \<and> find_earn_button (clickable (attempts n)) strategies
           (emit [Get EarnPage, Sleep (Seconds 3)] t) = (Some l, t3)
      \<and> click_earn (attempts n) = None \<and> earn_captcha_frame (attempts n) = None
      \<and> process_captcha (earn_captcha (attempts n)) 0
           (switch_to_frame Tcaptcha_iframe_dy
              (emit [Sleep (Uniform (1 / 2) (3 / 2)), ClickEarn] t3)) = Some (res', t4)
      \<and> res' \<noteq> Inr True"
  then show "earn_loop attempts n t = Some (emit [Send EarnCaptchaFailed] t4)"
    using earn_loop_captcha_failed[of n attempts t l t3 res' t4] by blast
next
  assume a: "reaches_earn_loop env' t2
      \<and> earn_loop (earn env') 0 (emit [Sleep (Seconds 2)] t2)
          = Some (emit [Send EarnCaptchaFailed] t5)"
  from balance_scrape_sends[of "balance env'" "emit [Send EarnCaptchaFailed] t5"]
  obtain m where "balance_scrape (balance env') (emit [Send EarnCaptchaFailed] t5)
                    = emit [ScrapeBalance, Send m] (emit [Send EarnCaptchaFailed] t5)"
    by blast
  with a main_from_earn_loop[of env' t2]
  have "main env' =
             Some (0, emit ([Send EarnCaptchaFailed, ScrapeBalance, Send m]
                            @ (if driver t5 then [Quit] else [])) t5)"
    by (simp add: top_level_Return emit_emit)
  then show "\<exists>m. main env' =
             Some (0, emit ([Send EarnCaptchaFailed, ScrapeBalance, Send m]
                            @ (if driver t5 then [Quit] else [])) t5)"
    by blast
qed

text \<open>
  The same failure at both places: the frame \<open>tcaptcha_iframe_dy\<close> appears, and the
  wait of \<open>process_captcha\<close> for the frame \<open>tcaptcha_iframe\<close> times out.
\<close>

theorem captcha_failure_fatal_only_after_login_witness:
  "main \<lparr>env_user = Some ''user'', env_pwd = Some ''secret'', env_debug = True,
          ocr_init = None, selenium_init = None, open_login = None,
          login = (\<lambda>n. Dashboard),
          login_captcha_frame = None,
          login_captcha = (\<lambda>k. \<lparr>iframe_wait = Some TimeoutException,
                                  challenge = Inl TimeoutException,
                                  gesture = None, failure_text = Inr False,
                                  refresh_lookup = None, refresh_click = None\<rparr>),
          dashboard_url = Inr True,
          earn = (\<lambda>n. \<lparr>page_load = None, clickable = (\<lambda>l. True),
                         click_earn = None, earn_captcha_frame = None,
                         earn_captcha = (\<lambda>k. \<lparr>iframe_wait = Some TimeoutException,
                                                challenge = Inl TimeoutException,
                                                gesture = None, failure_text = Inr False,
                                                refresh_lookup = None,
                                                refresh_click = None\<rparr>)\<rparr>),
          balance = Inr (Some [0x36, 0x30, 0x30, 0x30])\<rparr>
     = Some (1, \<lparr>driver = True, ctx = MainDocument,
                 trace = [Get LoginPage, LoginTry, Send LoginCaptchaFailed, Quit]\<rparr>)
   \<and> (\<exists>m.
        main \<lparr>env_user = Some ''user'', env_pwd = Some ''secret'', env_debug = True,
               ocr_init = None, selenium_init = None, open_login = None,
               login = (\<lambda>n. Dashboard),
               login_captcha_frame = Some TimeoutException,
               login_captcha = (\<lambda>k. \<lparr>iframe_wait = Some TimeoutException,
                                       challenge = Inl TimeoutException,
                                       gesture = None, failure_text = Inr False,
                                       refresh_lookup = None, refresh_click = None\<rparr>),
               dashboard_url = Inr True,
               earn = (\<lambda>n. \<lparr>page_load = None, clickable = (\<lambda>l. True),
                              click_earn = None, earn_captcha_frame = None,
                              earn_captcha = (\<lambda>k. \<lparr>iframe_wait = Some TimeoutException,
                                                     challenge = Inl TimeoutException,
                                                     gesture = None, failure_text = Inr False,
                                                     refresh_lookup = None,
                                                     refresh_click = None\<rparr>)\<rparr>),
               balance = Inr (Some [0x36, 0x30, 0x30, 0x30])\<rparr>
         = Some (0, \<lparr>driver = True, ctx = MainDocument,
                     trace = [Get LoginPage, LoginTry, Sleep (Seconds 2), Get EarnPage,
                              Sleep (Seconds 3), WaitClickable AbsoluteXPath,
                              Sleep (Uniform (1 / 2) (3 / 2)), ClickEarn,
                              Send EarnCaptchaFailed, ScrapeBalance, Send m, Quit]\<rparr>))"
proof -
  let ?r = "\<lparr>iframe_wait = Some TimeoutException, challenge = Inl TimeoutException,
             gesture = None, failure_text = Inr False,
             refresh_lookup = None, refresh_click = None\<rparr>"
  let ?a = "\<lparr>page_load = None, clickable = (\<lambda>l. True),
             click_earn = None, earn_captcha_frame = None,
             earn_captcha = (\<lambda>k. ?r)\<rparr>"
  let ?A = "\<lparr>env_user = Some ''user'', env_pwd = Some ''secret'', env_debug = True,
          ocr_init = None, selenium_init = None, open_login = None,
          login = (\<lambda>n. Dashboard),
          login_captcha_frame = None,
          login_captcha = (\<lambda>k. ?r),
          dashboard_url = Inr True,
          earn = (\<lambda>n. ?a),
          balance = Inr (Some [0x36, 0x30, 0x30, 0x30])\<rparr>"
  let ?B = "\<lparr>env_user = Some ''user'', env_pwd = Some ''secret'', env_debug = True,
          ocr_init = None, selenium_init = None, open_login = None,
          login = (\<lambda>n. Dashboard),
          login_captcha_frame = Some TimeoutException,
          login_captcha = (\<lambda>k. ?r),
          dashboard_url = Inr True,
          earn = (\<lambda>n. ?a),
          balance = Inr (Some [0x36, 0x30, 0x30, 0x30])\<rparr>"
  let ?s1 = "\<lparr>driver = True, ctx = MainDocument, trace = [Get LoginPage, LoginTry]\<rparr>"
  let ?t = "\<lparr>driver = True, ctx = MainDocument,
             trace = [Get LoginPage, LoginTry, Sleep (Seconds 2)]\<rparr>"
  let ?t3 = "\<lparr>driver = True, ctx = MainDocument,
              trace = [Get LoginPage, LoginTry, Sleep (Seconds 2), Get EarnPage,
                       Sleep (Seconds 3), WaitClickable AbsoluteXPath]\<rparr>"
  let ?t4 = "\<lparr>driver = True, ctx = MainDocument,
              trace = [Get LoginPage, LoginTry, Sleep (Seconds 2), Get EarnPage,
                       Sleep (Seconds 3), WaitClickable AbsoluteXPath,
                       Sleep (Uniform (1 / 2) (3 / 2)), ClickEarn]\<rparr>"
  have pc: "process_captcha (\<lambda>k. ?r) 0 s = Some (Inr False, switch_to_default_content s)" for s
    by (subst process_captcha.simps) (simp add: Let_def)
  have rA: "reaches_login_captcha ?A ?s1"
    by (simp add: reaches_login_captcha_def falsy_def startup_delay_def
        initial_session_def login_stage_def login_loop.simps login_pass_def login_try_def
        max_retries_def emit_def)
  have rB: "reaches_earn_loop ?B ?s1"
    by (simp add: reaches_earn_loop_def reaches_login_captcha_def falsy_def startup_delay_def
        initial_session_def login_stage_def login_loop.simps login_pass_def login_try_def
        max_retries_def emit_def post_login_captcha_def login_captcha_except_def
        switch_to_default_content_def)
  note T = captcha_failure_fatal_only_after_login
  have "main ?A = Some (1, emit ([Send LoginCaptchaFailed] @ (if driver ?s1 then [Quit] else [])) ?s1)"
    using T[of ?A ?s1 "Inr False" ?s1, THEN conjunct1] rA
    by (simp add: pc switch_to_default_content_def switch_to_frame_def)
  then have 1: "main ?A = Some (1, \<lparr>driver = True, ctx = MainDocument,
                 trace = [Get LoginPage, LoginTry, Send LoginCaptchaFailed, Quit]\<rparr>)"
    by (simp add: emit_def)
  have f: "find_earn_button (clickable ?a) strategies (emit [Get EarnPage, Sleep (Seconds 3)] ?t)
             = (Some AbsoluteXPath, ?t3)"
    by (simp add: strategies_def emit_def)
  have l: "earn_loop (\<lambda>n. ?a) 0 ?t = Some (emit [Send EarnCaptchaFailed] ?t4)"
    using T[of _ _ _ _ 0 "\<lambda>n. ?a" ?t AbsoluteXPath ?t3 "Inr False" ?t4, THEN conjunct2, THEN conjunct1] f
    by (simp add: pc max_earn_retries_def switch_to_default_content_def switch_to_frame_def emit_def)
  have "emit [Sleep (Seconds 2)] ?s1 = ?t"
    by (simp add: emit_def)
  with l rB T[of _ _ _ _ _ _ _ _ _ _ _ ?B ?s1 ?t4, THEN conjunct2, THEN conjunct2]
  obtain m where "main ?B =
             Some (0, emit ([Send EarnCaptchaFailed, ScrapeBalance, Send m]
                            @ (if driver ?t4 then [Quit] else [])) ?t4)"
    by auto
  then have "main ?B = Some (0, \<lparr>driver = True, ctx = MainDocument,
                     trace = [Get LoginPage, LoginTry, Sleep (Seconds 2), Get EarnPage,
                              Sleep (Seconds 3), WaitClickable AbsoluteXPath,
                              Sleep (Uniform (1 / 2) (3 / 2)), ClickEarn,
                              Send EarnCaptchaFailed, ScrapeBalance, Send m, Quit]\<rparr>)"
    by (simp add: emit_def)
  with 1 show ?thesis
    by blast
qed

end
